theory Spec2Isabelle
  imports Main "HOL-Library.AList"
begin

section \<open>Values exchanged with the outside world\<close>

text \<open>
  Request bodies, the caller metadata and the completion service's answers are JSON
  values as Python's \<^verbatim>\<open>json\<close> module reads them: \<^verbatim>\<open>None\<close>, booleans, numbers, strings,
  lists and dicts. Numbers are kept to the integers (no handler computes with a number
  of a body). A dict is the list of its items; \<open>map_of\<close> is its lookup.
\<close>

datatype json =
    JNull
  | JBool bool
  | JNum int
  | JStr string
  | JArr "json list"
  | JObj "(string \<times> json) list"

text \<open>The exceptions the handlers can meet; every handler catches \<^verbatim>\<open>Exception\<close>.\<close>

datatype error =
    AttributeError
  | IndexError
  | KeyError
  | TypeError
  | ValueError
  | BadRequest
  | RequestException
  | DatabaseError

text \<open>Sequencing of steps that may raise: the first exception ends the block.\<close>

definition bind_exn :: "error + 'a \<Rightarrow> ('a \<Rightarrow> error + 'b) \<Rightarrow> error + 'b" where
  "bind_exn m f = (case m of Inl e \<Rightarrow> Inl e | Inr x \<Rightarrow> f x)"

text \<open>Python's truth value of a JSON value, as \<^verbatim>\<open>x or {}\<close> tests it.\<close>

fun falsy :: "json \<Rightarrow> bool" where
  "falsy JNull = True"
| "falsy (JBool b) = (\<not> b)"
| "falsy (JNum n) = (n = 0)"
| "falsy (JStr s) = (s = [])"
| "falsy (JArr xs) = (xs = [])"
| "falsy (JObj kvs) = (kvs = [])"

text \<open>
  \<^verbatim>\<open>data = request.get_json() or {}\<close>. The body is \<open>None\<close> when \<^verbatim>\<open>get_json\<close> raises (no
  JSON content type, malformed JSON).
\<close>

definition get_json_or_empty :: "json option \<Rightarrow> error + json" where
  "get_json_or_empty body =
     (case body of
        None \<Rightarrow> Inl BadRequest
      | Some j \<Rightarrow> Inr (if falsy j then JObj [] else j))"

text \<open>\<^verbatim>\<open>d.get(k, default)\<close> on a dict, and on any value (only a dict has \<^verbatim>\<open>get\<close>).\<close>

definition dict_get :: "(string \<times> json) list \<Rightarrow> string \<Rightarrow> json \<Rightarrow> json" where
  "dict_get d k dflt = (case map_of d k of None \<Rightarrow> dflt | Some v \<Rightarrow> v)"

definition py_get :: "json \<Rightarrow> string \<Rightarrow> json \<Rightarrow> error + json" where
  "py_get j k dflt =
     (case j of JObj d \<Rightarrow> Inr (dict_get d k dflt) | _ \<Rightarrow> Inl AttributeError)"

text \<open>\<^verbatim>\<open>x[0]\<close>: the first element of a list, the first character of a string.\<close>

fun py_index0 :: "json \<Rightarrow> error + json" where
  "py_index0 (JArr []) = Inl IndexError"
| "py_index0 (JArr (x # xs)) = Inr x"
| "py_index0 (JStr []) = Inl IndexError"
| "py_index0 (JStr (c # cs)) = Inr (JStr [c])"
| "py_index0 (JObj kvs) = Inl KeyError"
| "py_index0 JNull = Inl TypeError"
| "py_index0 (JBool b) = Inl TypeError"
| "py_index0 (JNum n) = Inl TypeError"

text \<open>
  \<^verbatim>\<open>str.strip()\<close>. Characters are the code points below 256; these are the ones of them
  for which \<^verbatim>\<open>str.isspace\<close> holds.
\<close>

definition whitespace :: "char list" where
  "whitespace =
     [CHR 0x09, CHR 0x0A, CHR 0x0B, CHR 0x0C, CHR 0x0D, CHR 0x1C, CHR 0x1D, CHR 0x1E,
      CHR 0x1F, CHR '' '', CHR 0x85, CHR 0xA0]"

definition isspace :: "char \<Rightarrow> bool" where
  "isspace c = (c \<in> set whitespace)"

definition strip :: "string \<Rightarrow> string" where
  "strip s = rev (dropWhile isspace (rev (dropWhile isspace s)))"

definition py_strip :: "json \<Rightarrow> error + string" where
  "py_strip j = (case j of JStr s \<Rightarrow> Inr (strip s) | _ \<Rightarrow> Inl AttributeError)"

section \<open>Sessions and the in-memory store\<close>

text \<open>
  A \<^verbatim>\<open>datetime\<close> is its number of microseconds since the epoch, the resolution of
  \<^verbatim>\<open>datetime.utcnow()\<close>. Each call of \<^verbatim>\<open>utcnow\<close> is a reading handed to the model.
\<close>

type_synonym datetime = int

record turn =
  role :: string
  content :: json

record session =
  user_id :: int
  slug :: string
  caller_info :: json
  history :: "turn list"
  start_time :: datetime
  last_activity :: datetime

text \<open>
  \<^verbatim>\<open>sessions = {}\<close>: a dict in insertion order, as the list of its items. A dict has no
  key twice, which is \<open>wf_store\<close>. \<open>AList.update\<close> is \<^verbatim>\<open>sessions[k] = v\<close> (an existing
  key keeps its place, a new one goes last) and \<open>dict_pop\<close> is \<^verbatim>\<open>sessions.pop(k, None)\<close>.
\<close>

type_synonym store = "(string \<times> session) list"

definition wf_store :: "store \<Rightarrow> bool" where
  "wf_store sessions = distinct (map fst sessions)"

definition dict_pop :: "string \<Rightarrow> store \<Rightarrow> session option \<times> store" where
  "dict_pop k sessions = (map_of sessions k, AList.delete k sessions)"

text \<open>
  What a handler answers: the \<^verbatim>\<open>jsonify\<close> body with \<^verbatim>\<open>'status': 'success'\<close> of each
  route, and \<^verbatim>\<open>jsonify({'error': msg}), code\<close>.
\<close>

datatype response =
    StartSuccess string string datetime
  | MessageSuccess json
  | EndSuccess int
  | EndNotFound
  | Failure nat string

section \<open>AI response generation\<close>

record config =
  LLM_API_URL :: string
  LLM_API_KEY :: string

text \<open>
  What \<^verbatim>\<open>requests.post\<close> does: it raises (timeout, connection error), or it returns a
  response with a status code and a body; the body's \<^verbatim>\<open>json()\<close> is \<open>None\<close> when it raises.
  The request is the fixed persona text with the caller's name, followed by the
  session's history; temperature, token limit and timeout are constants. So the client
  is a function of the caller's name and the history.
\<close>

datatype http_outcome =
    Raised
  | Response int "json option"

type_synonym llm_client = "json \<Rightarrow> turn list \<Rightarrow> http_outcome"

definition understood_text :: string where
  "understood_text = ''I understand. Let me take a message for you.''"

definition thanks_text :: string where
  "thanks_text = ''Thank you for your message. I'll make sure it gets delivered.''"

definition apology_text :: string where
  "apology_text = ''I apologize for the inconvenience. Your message has been noted.''"

definition generate_ai_response_try :: "config \<Rightarrow> session \<Rightarrow> llm_client \<Rightarrow> error + json" where
  "generate_ai_response_try cfg session llm =
     bind_exn (py_get (caller_info session) ''name'' (JStr ''Guest'')) (\<lambda>caller_name.
       if LLM_API_URL cfg \<noteq> [] \<and> LLM_API_KEY cfg \<noteq> [] then
         (case llm caller_name (history session) of
            Raised \<Rightarrow> Inl RequestException
          | Response status_code body \<Rightarrow>
              if status_code = 200 then
                bind_exn (case body of None \<Rightarrow> Inl ValueError | Some result \<Rightarrow> Inr result)
                  (\<lambda>result.
                bind_exn (py_get result ''choices'' (JArr [JObj []])) (\<lambda>choices.
                bind_exn (py_index0 choices) (\<lambda>choice.
                bind_exn (py_get choice ''message'' (JObj [])) (\<lambda>msg.
                py_get msg ''content'' (JStr understood_text)))))
              else Inr (JStr thanks_text))
       else Inr (JStr thanks_text))"

definition generate_ai_response :: "config \<Rightarrow> session \<Rightarrow> llm_client \<Rightarrow> json" where
  "generate_ai_response cfg session llm =
     (case generate_ai_response_try cfg session llm of
        Inl e \<Rightarrow> JStr apology_text
      | Inr reply \<Rightarrow> reply)"

section \<open>The public routes\<close>

subsection \<open>Start\<close>

text \<open>
  The owner's row for a slug: no connection from the pool, the query raising, no row,
  or the row (\<^verbatim>\<open>preferences\<close> is parsed by \<^verbatim>\<open>safe_json\<close>, which never raises, and then
  unused). Closing the cursor and the connection is taken to succeed.
\<close>

record user_row =
  row_id :: int
  row_name :: string

datatype user_query =
    NoConnection
  | QueryRaises
  | NoRow
  | Row user_row

definition greeting_for :: "string \<Rightarrow> string" where
  "greeting_for owner_name =
     ''Hello! You've reached '' @ owner_name @
       CHR 0x27 # ''s AI receptionist. How can I help you today?''"

text \<open>
  \<open>uuid\<close> is \<^verbatim>\<open>str(uuid.uuid4())\<close>; \<open>t_start\<close>, \<open>t_activity\<close> and \<open>t_response\<close> are the
  three readings of the clock, in the order the handler takes them.
\<close>

definition start_request :: "json option \<Rightarrow> error + string \<times> json" where
  "start_request body =
     bind_exn (get_json_or_empty body) (\<lambda>data.
     bind_exn (py_get data ''slug'' (JStr [])) (\<lambda>slug_raw.
     bind_exn (py_strip slug_raw) (\<lambda>slug_v.
     bind_exn (py_get data ''caller_info'' (JObj [])) (\<lambda>caller_info_v.
     Inr (slug_v, caller_info_v)))))"

definition start_public_session_try ::
  "json option \<Rightarrow> (string \<Rightarrow> user_query) \<Rightarrow> string \<Rightarrow> datetime \<Rightarrow> datetime \<Rightarrow> datetime \<Rightarrow> store
     \<Rightarrow> (error + response) \<times> store" where
  "start_public_session_try body db uuid t_start t_activity t_response sessions =
     (case start_request body of
        Inl e \<Rightarrow> (Inl e, sessions)
      | Inr (slug_v, caller_info_v) \<Rightarrow>
          if slug_v = [] then (Inr (Failure 400 ''Slug required''), sessions)
          else
            (case db slug_v of
               NoConnection \<Rightarrow> (Inr (Failure 500 ''Database error''), sessions)
             | QueryRaises \<Rightarrow> (Inl DatabaseError, sessions)
             | NoRow \<Rightarrow> (Inr (Failure 404 ''Invalid link''), sessions)
             | Row user \<Rightarrow>
                 (let greeting = greeting_for (row_name user);
                      session_id = uuid
                  in (Inr (StartSuccess session_id greeting t_response),
                      AList.update session_id
                        \<lparr>user_id = row_id user, slug = slug_v, caller_info = caller_info_v,
                         history = [], start_time = t_start, last_activity = t_activity\<rparr>
                        sessions))))"

definition start_public_session ::
  "json option \<Rightarrow> (string \<Rightarrow> user_query) \<Rightarrow> string \<Rightarrow> datetime \<Rightarrow> datetime \<Rightarrow> datetime \<Rightarrow> store
     \<Rightarrow> response \<times> store" where
  "start_public_session body db uuid t_start t_activity t_response sessions =
     (case start_public_session_try body db uuid t_start t_activity t_response sessions of
        (Inl e, sessions') \<Rightarrow> (Failure 500 ''Failed to start session'', sessions')
      | (Inr r, sessions') \<Rightarrow> (r, sessions'))"

subsection \<open>Message\<close>

text \<open>
  The handler looks the session up and then changes that dict in place: the user turn,
  the assistant turn and the activity time land in the store's entry, whose place in the
  dict does not change. \<open>now\<close> is the handler's one reading of the clock.
\<close>

definition message_request :: "json option \<Rightarrow> error + string \<times> string" where
  "message_request body =
     bind_exn (get_json_or_empty body) (\<lambda>data.
     bind_exn (py_get data ''session_id'' (JStr [])) (\<lambda>session_id_raw.
     bind_exn (py_strip session_id_raw) (\<lambda>session_id.
     bind_exn (py_get data ''message'' (JStr [])) (\<lambda>message_raw.
     bind_exn (py_strip message_raw) (\<lambda>message.
     Inr (session_id, message))))))"

definition send_public_message_try ::
  "config \<Rightarrow> json option \<Rightarrow> llm_client \<Rightarrow> datetime \<Rightarrow> store \<Rightarrow> (error + response) \<times> store" where
  "send_public_message_try cfg body llm now sessions =
     (case message_request body of
        Inl e \<Rightarrow> (Inl e, sessions)
      | Inr (session_id, message) \<Rightarrow>
          if session_id = [] \<or> message = [] then
            (Inr (Failure 400 ''Session ID and message required''), sessions)
          else
            (case map_of sessions session_id of
               None \<Rightarrow> (Inr (Failure 404 ''Session not found''), sessions)
             | Some session \<Rightarrow>
                 (let session1 = session
                        \<lparr>history := history session @ [\<lparr>role = ''user'', content = JStr message\<rparr>]\<rparr>;
                      ai_response = generate_ai_response cfg session1 llm;
                      session2 = session1
                        \<lparr>history := history session1 @ [\<lparr>role = ''assistant'', content = ai_response\<rparr>],
                         last_activity := now\<rparr>
                  in (Inr (MessageSuccess ai_response),
                      AList.update session_id session2 sessions))))"

definition send_public_message ::
  "config \<Rightarrow> json option \<Rightarrow> llm_client \<Rightarrow> datetime \<Rightarrow> store \<Rightarrow> response \<times> store" where
  "send_public_message cfg body llm now sessions =
     (case send_public_message_try cfg body llm now sessions of
        (Inl e, sessions') \<Rightarrow> (Failure 500 ''Failed to send message'', sessions')
      | (Inr r, sessions') \<Rightarrow> (r, sessions'))"

subsection \<open>End\<close>

text \<open>
  A row of \<^verbatim>\<open>receptionist_calls\<close> as the handler inserts it, and what the database does
  with the insert: no connection from the pool, the insert committed, or the insert
  (or its commit) raising. \<open>calls\<close> is the table. As in the start route, closing the
  cursor and the connection is taken to succeed.
\<close>

record call_record =
  rec_user_id :: int
  rec_session_id :: string
  rec_caller_info :: json
  rec_conversation :: "turn list"
  rec_summary :: json
  rec_duration :: int
  rec_created_at :: datetime

datatype insert_outcome =
    NoConn
  | Committed
  | InsertRaises

text \<open>
  \<^verbatim>\<open>int(delta.total_seconds())\<close>. \<^verbatim>\<open>total_seconds\<close> divides the microseconds of the difference
  by \<^verbatim>\<open>10**6\<close> with Python's true division of integers, whose result is the binary64
  number nearest to the quotient, ties to the even mantissa; \<^verbatim>\<open>int\<close> then rounds towards
  zero. For positive \<open>n\<close> and \<open>d\<close>, \<open>binary_exponent n d\<close> is the \<open>e\<close> with
  \<open>2 ^ e \<le> n / d < 2 ^ (e + 1)\<close>, the nearest number is a 53-bit mantissa times
  \<open>2 ^ (e - 52)\<close>, and \<open>int_true_div n d\<close> is its integer part. Differences of
  datetimes stay far from the overflow and the subnormal range of binary64.
\<close>

function ilog2 :: "int \<Rightarrow> int" where
  "ilog2 n = (if n < 2 then 0 else 1 + ilog2 (n div 2))"
  by pat_completeness auto
termination
  by (relation "measure nat") auto

declare ilog2.simps [simp del]

definition round_half_even :: "int \<Rightarrow> int \<Rightarrow> int" where
  "round_half_even n d =
     (let q = n div d; r = n mod d
      in if 2 * r < d then q else if d < 2 * r then q + 1 else if even q then q else q + 1)"

definition binary_exponent :: "int \<Rightarrow> int \<Rightarrow> int" where
  "binary_exponent n d =
     (let e0 = ilog2 n - ilog2 d
      in if (if 0 \<le> e0 then d * 2 ^ nat e0 \<le> n else d \<le> n * 2 ^ nat (- e0)) then e0
         else e0 - 1)"

definition int_true_div :: "int \<Rightarrow> int \<Rightarrow> int" where
  "int_true_div n d =
     (if n = 0 then 0
      else
        (let shift = 52 - binary_exponent n d
         in if 0 \<le> shift then round_half_even (n * 2 ^ nat shift) d div 2 ^ nat shift
            else round_half_even n (d * 2 ^ nat (- shift)) * 2 ^ nat (- shift)))"

definition int_total_seconds :: "int \<Rightarrow> int" where
  "int_total_seconds delta =
     (if 0 \<le> delta then int_true_div delta 1000000 else - int_true_div (- delta) 1000000)"

definition end_request :: "json option \<Rightarrow> error + string" where
  "end_request body =
     bind_exn (get_json_or_empty body) (\<lambda>data.
     bind_exn (py_get data ''session_id'' (JStr [])) (\<lambda>session_id_raw.
     py_strip session_id_raw))"

definition end_public_session_try ::
  "json option \<Rightarrow> insert_outcome \<Rightarrow> datetime \<Rightarrow> store \<Rightarrow> call_record list
     \<Rightarrow> (error + response) \<times> store \<times> call_record list" where
  "end_public_session_try body db now sessions calls =
     (case end_request body of
        Inl e \<Rightarrow> (Inl e, sessions, calls)
      | Inr session_id \<Rightarrow>
          if session_id = [] then (Inr (Failure 400 ''Session ID required''), sessions, calls)
          else
            (case dict_pop session_id sessions of
               (None, sessions') \<Rightarrow> (Inr EndNotFound, sessions', calls)
             | (Some session, sessions') \<Rightarrow>
                 (let duration = int_total_seconds (now - start_time session) in
                  case db of
                    NoConn \<Rightarrow> (Inr (EndSuccess duration), sessions', calls)
                  | InsertRaises \<Rightarrow> (Inl DatabaseError, sessions', calls)
                  | Committed \<Rightarrow>
                      (Inr (EndSuccess duration), sessions',
                       calls @
                         [\<lparr>rec_user_id = user_id session, rec_session_id = session_id,
                           rec_caller_info = caller_info session,
                           rec_conversation = history session,
                           rec_summary = JObj [(''message'', JStr ''Session ended'')],
                           rec_duration = duration,
                           rec_created_at = start_time session\<rparr>]))))"

definition end_public_session ::
  "json option \<Rightarrow> insert_outcome \<Rightarrow> datetime \<Rightarrow> store \<Rightarrow> call_record list
     \<Rightarrow> response \<times> store \<times> call_record list" where
  "end_public_session body db now sessions calls =
     (case end_public_session_try body db now sessions calls of
        (Inl e, rest) \<Rightarrow> (Failure 500 ''Failed to end session'', rest)
      | (Inr r, rest) \<Rightarrow> (r, rest))"

section \<open>The cleanup task\<close>

text \<open>
  One pass of the loop body, under the lock: the ids idle for more than 1800 seconds are
  collected in dict order, then deleted one by one (each is a key of the dict, so \<^verbatim>\<open>del\<close>
  does not raise). The comparison \<^verbatim>\<open>total_seconds() > 1800\<close> is exact on microseconds: 1800
  is a binary64 number and the next one above it is nearer to it than a microsecond. The task repeats the pass for ever; \<open>cleanup_sessions\<close> runs it for
  the clock readings of the passes that took place.
\<close>

definition idle_expired :: "datetime \<Rightarrow> session \<Rightarrow> bool" where
  "idle_expired now data = (now - last_activity data > 1800 * 1000000)"

definition expired_ids :: "datetime \<Rightarrow> store \<Rightarrow> string list" where
  "expired_ids now sessions =
     map fst (filter (\<lambda>(session_id, data). idle_expired now data) sessions)"

definition cleanup_pass :: "datetime \<Rightarrow> store \<Rightarrow> store" where
  "cleanup_pass now sessions = fold AList.delete (expired_ids now sessions) sessions"

fun cleanup_sessions :: "datetime list \<Rightarrow> store \<Rightarrow> store" where
  "cleanup_sessions [] sessions = sessions"
| "cleanup_sessions (now # later) sessions = cleanup_sessions later (cleanup_pass now sessions)"

section \<open>The life of the store\<close>

text \<open>
  The requests and cleanup passes that reach the store, one after the other, each with
  what the outside world hands it; \<open>run\<close> applies them in order to the store and the
  table of calls.
\<close>

datatype op =
    Start "json option" "string \<Rightarrow> user_query" string datetime datetime datetime
  | Message config "json option" llm_client datetime
  | End "json option" insert_outcome datetime
  | Cleanup datetime

fun step :: "op \<Rightarrow> store \<times> call_record list \<Rightarrow> store \<times> call_record list" where
  "step (Start body db uuid t_start t_activity t_response) (sessions, calls) =
     (snd (start_public_session body db uuid t_start t_activity t_response sessions), calls)"
| "step (Message cfg body llm now) (sessions, calls) =
     (snd (send_public_message cfg body llm now sessions), calls)"
| "step (End body db now) (sessions, calls) = snd (end_public_session body db now sessions calls)"
| "step (Cleanup now) (sessions, calls) = (cleanup_pass now sessions, calls)"

definition run :: "op list \<Rightarrow> store \<times> call_record list \<Rightarrow> store \<times> call_record list" where
  "run ops st = fold step ops st"

text \<open>The id a start request draws from \<^verbatim>\<open>uuid4\<close>.\<close>

fun drawn_id :: "op \<Rightarrow> string option" where
  "drawn_id (Start body db uuid t_start t_activity t_response) = Some uuid"
| "drawn_id (Message cfg body llm now) = None"
| "drawn_id (End body db now) = None"
| "drawn_id (Cleanup now) = None"

section \<open>The completion service's answer\<close>

text \<open>
  The reply a chat-completions answer carries: status 200, a JSON object, and in it the
  field \<^verbatim>\<open>content\<close> of the field \<^verbatim>\<open>message\<close> of the first of \<^verbatim>\<open>choices\<close>. The client has
  succeeded with a text when that field is a string; an outcome with no such field is a
  failure of the client (the call raised, another status, a body that is no JSON or has
  another shape).
\<close>

fun completion_content :: "http_outcome \<Rightarrow> json option" where
  "completion_content (Response status_code (Some (JObj result))) =
     (if status_code = 200 then
        (case map_of result ''choices'' of
           Some (JArr (JObj choice # others)) \<Rightarrow>
             (case map_of choice ''message'' of
                Some (JObj msg) \<Rightarrow> map_of msg ''content''
              | _ \<Rightarrow> None)
         | _ \<Rightarrow> None)
      else None)"
| "completion_content outcome = None"

definition completion_text :: "http_outcome \<Rightarrow> string option" where
  "completion_text outcome =
     (case completion_content outcome of Some (JStr text) \<Rightarrow> Some text | _ \<Rightarrow> None)"

section \<open>Scenarios\<close>

text \<open>
  The configuration's defaults, and the conversation of the specification's end-to-end
  scenarios: owner 1, caller Alex, the question about the hours, and clients that answer,
  time out, or answer with status 503.
\<close>

definition default_config :: config where
  "default_config =
     \<lparr>LLM_API_URL = ''http://localhost:3002/v1/chat/completions'', LLM_API_KEY = ''your-api-key''\<rparr>"

definition session_alex :: session where
  "session_alex =
     \<lparr>user_id = 1, slug = ''front-desk'', caller_info = JObj [(''name'', JStr ''Alex'')],
      history = [], start_time = 0, last_activity = 0\<rparr>"

definition store_alex :: store where
  "store_alex = [(''S'', session_alex)]"

definition body_hours :: "json option" where
  "body_hours =
     Some (JObj [(''session_id'', JStr ''S''), (''message'', JStr ''What are your hours?'')])"

definition body_session_S :: "json option" where
  "body_session_S = Some (JObj [(''session_id'', JStr ''S'')])"

definition body_start :: "json option" where
  "body_start =
     Some (JObj [(''slug'', JStr ''front-desk''), (''caller_info'', JObj [(''name'', JStr ''Alex'')])])"

definition db_owner :: "string \<Rightarrow> user_query" where
  "db_owner slug_v = Row \<lparr>row_id = 1, row_name = ''Dana''\<rparr>"

definition llm_open_9_to_5 :: llm_client where
  "llm_open_9_to_5 caller_name turns =
     Response 200
       (Some (JObj [(''choices'',
          JArr [JObj [(''message'', JObj [(''content'', JStr ''We are open 9 to 5.'')])]])]))"

definition llm_timeout :: llm_client where
  "llm_timeout caller_name turns = Raised"

definition llm_status_503 :: llm_client where
  "llm_status_503 caller_name turns = Response 503 None"

text \<open>
  Alex's session after that question and its answer; a second caller whose session is
  one microsecond younger; what follows the end of Alex's session: a cleanup pass and
  another caller's start.
\<close>

definition session_after_hours :: session where
  "session_after_hours =
     \<lparr>user_id = 1, slug = ''front-desk'', caller_info = JObj [(''name'', JStr ''Alex'')],
      history = [\<lparr>role = ''user'', content = JStr ''What are your hours?''\<rparr>,
                 \<lparr>role = ''assistant'', content = JStr ''We are open 9 to 5.''\<rparr>],
      start_time = 0, last_activity = 90000000\<rparr>"

definition store_after_hours :: store where
  "store_after_hours = [(''S'', session_after_hours)]"

definition session_blair :: session where
  "session_blair =
     \<lparr>user_id = 1, slug = ''front-desk'', caller_info = JObj [(''name'', JStr ''Blair'')],
      history = [], start_time = 1, last_activity = 1\<rparr>"

text \<open>A session whose start lies one second after the clock reading of its end.\<close>

definition session_ahead :: session where
  "session_ahead =
     \<lparr>user_id = 1, slug = ''front-desk'', caller_info = JObj [(''name'', JStr ''Alex'')],
      history = [], start_time = 130000000, last_activity = 130000000\<rparr>"

definition store_ahead :: store where
  "store_ahead = [(''S'', session_ahead)]"

definition store_two :: store where
  "store_two = [(''S'', session_alex), (''T'', session_blair)]"

definition later_ops :: "op list" where
  "later_ops =
     [Cleanup 130000000, Start body_start db_owner ''T'' 140000000 140000001 140000002]"

section \<open>Whole seconds of a time difference\<close>

lemma ilog2_nonneg: "0 \<le> ilog2 n"
  by (induction n rule: ilog2.induct) (subst ilog2.simps, simp)

lemma ilog2_bounds: "0 < n \<Longrightarrow> 2 ^ nat (ilog2 n) \<le> n \<and> n < 2 * 2 ^ nat (ilog2 n)"
proof (induction n rule: ilog2.induct)
  case (1 n)
  show ?case
  proof (cases "n < 2")
    case True
    with "1.prems" have "n = 1" by simp
    then show ?thesis by (simp add: ilog2.simps)
  next
    case False
    then have pos: "0 < n div 2" by simp
    from "1.IH" [OF False pos]
    have lo: "2 ^ nat (ilog2 (n div 2)) \<le> n div 2"
      and hi: "n div 2 < 2 * 2 ^ nat (ilog2 (n div 2))"
      by simp_all
    have eq: "ilog2 n = 1 + ilog2 (n div 2)"
      using False by (subst ilog2.simps) simp
    have pw: "(2::int) ^ nat (ilog2 n) = 2 * 2 ^ nat (ilog2 (n div 2))"
      using ilog2_nonneg [of "n div 2"] by (simp add: eq nat_add_distrib)
    from lo have "2 * 2 ^ nat (ilog2 (n div 2)) \<le> n" by linarith
    moreover from hi have "n < 2 * (2 * 2 ^ nat (ilog2 (n div 2)))" by linarith
    ultimately show ?thesis by (simp add: pw)
  qed
qed

lemma round_half_even_bounds:
  assumes "0 < d"
  shows "2 * (round_half_even x d * d) \<le> 2 * x + d"
    and "2 * x \<le> 2 * (round_half_even x d * d) + d"
proof -
  have x: "x = x div d * d + x mod d" by simp
  have r: "0 \<le> x mod d" "x mod d < d" using assms by simp_all
  define q where "q = x div d"
  define r where "r = x mod d"
  have xq: "x = q * d + r" and r0: "0 \<le> r" and r1: "r < d"
    using x r by (simp_all add: q_def r_def)
  have m: "round_half_even x d = q \<and> 2 * r \<le> d \<or> round_half_even x d = q + 1 \<and> d \<le> 2 * r"
    by (auto simp add: round_half_even_def Let_def q_def r_def)
  show "2 * (round_half_even x d * d) \<le> 2 * x + d"
    using m xq r0 r1 by (auto simp add: algebra_simps)
  show "2 * x \<le> 2 * (round_half_even x d * d) + d"
    using m xq r0 r1 by (auto simp add: algebra_simps)
qed

lemma round_half_even_nonneg:
  assumes "0 \<le> x" and "0 < d"
  shows "0 \<le> round_half_even x d"
proof -
  have "0 \<le> x div d" using assms by (simp add: pos_imp_zdiv_nonneg_iff)
  then show ?thesis
    by (auto simp add: round_half_even_def Let_def)
qed

lemma int_true_div_nonneg:
  assumes "0 \<le> n" and "0 < d"
  shows "0 \<le> int_true_div n d"
  using assms
  by (auto simp add: int_true_div_def Let_def round_half_even_nonneg pos_imp_zdiv_nonneg_iff)

lemma int_total_seconds_nonneg: "0 \<le> delta \<Longrightarrow> 0 \<le> int_total_seconds delta"
  by (simp add: int_total_seconds_def int_true_div_nonneg)

lemma ilog2_million: "ilog2 1000000 = 19"
  by code_simp

text \<open>
  Below \<open>2 ^ 34\<close> seconds the binary64 numbers lie less than two microseconds apart, so
  the quotient never rounds up to the next whole second.
\<close>

lemma binary_exponent_seconds:
  assumes "0 < n" and "n < 17179869184 * 1000000"
  shows "binary_exponent n 1000000 \<le> 33"
proof -
  have "(2::int) ^ nat (ilog2 n) \<le> n"
    using ilog2_bounds [OF assms(1)] by simp
  also have "n < 2 ^ 54"
    using assms(2) by simp
  finally have "(2::int) ^ nat (ilog2 n) < 2 ^ 54" .
  then have "nat (ilog2 n) < 54"
    by (rule power_less_imp_less_exp [rotated]) simp
  then have le: "ilog2 n \<le> 53" by simp
  show ?thesis
  proof (cases "ilog2 n = 53")
    case True
    have "\<not> (1000000 * 2 ^ 34 \<le> n)"
      using assms(2) by simp
    then show ?thesis
      by (simp add: binary_exponent_def ilog2_million True)
  next
    case False
    with le have "ilog2 n - 19 \<le> 33" by simp
    then show ?thesis
      by (auto simp add: binary_exponent_def ilog2_million Let_def)
  qed
qed

lemma int_true_div_seconds:
  assumes "0 \<le> n" and "n < 17179869184 * 1000000"
  shows "int_true_div n 1000000 = n div 1000000"
proof (cases "n = 0")
  case True
  then show ?thesis by (simp add: int_true_div_def)
next
  case False
  with assms(1) have pos: "0 < n" by simp
  define shift where "shift = 52 - binary_exponent n 1000000"
  have shift: "19 \<le> shift"
    using binary_exponent_seconds [OF pos assms(2)] by (simp add: shift_def)
  define P :: int where "P = 2 ^ nat shift"
  have "(2::int) ^ 19 \<le> 2 ^ nat shift"
    using shift by (intro power_increasing) simp_all
  then have P: "524288 \<le> P" by (simp add: P_def)
  define m where "m = round_half_even (n * P) 1000000"
  define k where "k = n div 1000000"
  define r where "r = n mod 1000000"
  have n: "n = k * 1000000 + r" and r: "0 \<le> r" "r \<le> 999999"
    by (simp_all add: k_def r_def)
  have up: "2 * (m * 1000000) \<le> 2 * (n * P) + 1000000"
    and lo: "2 * (n * P) \<le> 2 * (m * 1000000) + 1000000"
    unfolding m_def by (rule round_half_even_bounds, simp)+
  define kp where "kp = k * P"
  define rp where "rp = r * P"
  have nP: "n * P = kp * 1000000 + rp"
    by (simp add: n kp_def rp_def algebra_simps)
  have rp: "0 \<le> rp" "rp \<le> 999999 * P"
    using r P by (simp_all add: rp_def mult_right_mono)
  have "kp \<le> m" "m < kp + P"
    using up lo nP rp P by linarith+
  then have small: "0 \<le> m - kp" "m - kp < P"
    by simp_all
  have "m div P = (m - kp + k * P) div P"
    by (simp add: kp_def)
  also have "\<dots> = k + (m - kp) div P"
    using P by (subst div_mult_self1) simp_all
  also have "(m - kp) div P = 0"
    using small by (rule div_pos_pos_trivial)
  finally have "m div P = k" by simp
  moreover have "0 \<le> shift" using shift by simp
  ultimately show ?thesis
    using False by (simp add: int_true_div_def Let_def shift_def [symmetric] P_def m_def k_def)
qed

lemma int_total_seconds_exact:
  assumes "0 \<le> delta" and "delta < 17179869184 * 1000000"
  shows "int_total_seconds delta = delta div 1000000"
  using assms by (simp add: int_total_seconds_def int_true_div_seconds)

text \<open>
  Two differences outside that range: one second back, and the last microsecond before
  \<open>2 ^ 34 + 1\<close> seconds, where the quotient rounds up.
\<close>

lemma int_total_seconds_back: "int_total_seconds (- 1000000) = - 1"
  by code_simp

lemma int_total_seconds_rounds_up: "int_total_seconds 17179869184999999 = 17179869185"
  by code_simp

section \<open>Evaluation and basic facts\<close>

lemma bind_exn_Inl: "bind_exn (Inl e) f = Inl e"
  by (simp add: bind_exn_def)

lemma bind_exn_Inr: "bind_exn (Inr x) f = f x"
  by (simp add: bind_exn_def)

lemmas eval_defs =
  bind_exn_Inl bind_exn_Inr get_json_or_empty_def dict_get_def py_get_def py_strip_def
  strip_def isspace_def whitespace_def message_request_def end_request_def start_request_def
  send_public_message_def send_public_message_try_def generate_ai_response_def
  generate_ai_response_try_def end_public_session_def end_public_session_try_def
  start_public_session_def start_public_session_try_def dict_pop_def int_total_seconds_exact
  int_total_seconds_back int_total_seconds_rounds_up
  understood_text_def thanks_text_def apology_text_def greeting_for_def
  completion_text_def Let_def

lemmas scenario_defs =
  default_config_def session_alex_def store_alex_def body_hours_def body_session_S_def
  body_start_def db_owner_def llm_open_9_to_5_def llm_timeout_def llm_status_503_def
  later_ops_def session_after_hours_def store_after_hours_def session_blair_def store_two_def session_ahead_def store_ahead_def

lemma completion_content_SomeD:
  assumes "completion_content outcome = Some c"
  shows "\<exists>result choice others msg.
           outcome = Response 200 (Some (JObj result))
         \<and> map_of result ''choices'' = Some (JArr (JObj choice # others))
         \<and> map_of choice ''message'' = Some (JObj msg)
         \<and> map_of msg ''content'' = Some c"
  using assms
  by (cases outcome rule: completion_content.cases)
     (auto split: if_splits option.splits json.splits list.splits)

lemma generate_ai_response_content:
  assumes "caller_info s = JObj info"
    and "LLM_API_URL cfg \<noteq> []" and "LLM_API_KEY cfg \<noteq> []"
    and "completion_content (llm (dict_get info ''name'' (JStr ''Guest'')) (history s)) = Some c"
  shows "generate_ai_response cfg s llm = c"
proof -
  from completion_content_SomeD [OF assms(4)] obtain result choice others msg where
    out: "llm (dict_get info ''name'' (JStr ''Guest'')) (history s) = Response 200 (Some (JObj result))"
    and ch: "map_of result ''choices'' = Some (JArr (JObj choice # others))"
    and ms: "map_of choice ''message'' = Some (JObj msg)"
    and co: "map_of msg ''content'' = Some c"
    by blast
  show ?thesis
    using assms(1-3) out ch ms co
    by (simp add: generate_ai_response_def generate_ai_response_try_def py_get_def
        bind_exn_Inr dict_get_def)
qed

lemma send_public_message_live:
  assumes req: "message_request body = Inr (session_id, message)"
    and sid: "session_id \<noteq> []" and msg: "message \<noteq> []"
    and live: "map_of sessions session_id = Some s"
  shows "send_public_message cfg body llm now sessions =
     (MessageSuccess
        (generate_ai_response cfg
           (s\<lparr>history := history s @ [\<lparr>role = ''user'', content = JStr message\<rparr>]\<rparr>) llm),
      AList.update session_id
        (s\<lparr>history := history s @
              [\<lparr>role = ''user'', content = JStr message\<rparr>,
               \<lparr>role = ''assistant'', content =
                  generate_ai_response cfg
                    (s\<lparr>history := history s @ [\<lparr>role = ''user'', content = JStr message\<rparr>]\<rparr>) llm\<rparr>],
            last_activity := now\<rparr>)
        sessions)"
  using assms
  by (simp add: send_public_message_def send_public_message_try_def Let_def)

section \<open>Handling a message\<close>

text \<open>
  Claim C1. A message handled against an existing session (the request's session id and
  message are strings that are not blank once trimmed, and the id is registered) is
  answered with the success response, and the session's history grows by exactly two
  turns at its end: the trimmed message with role \<^verbatim>\<open>user\<close>, then the reply with role
  \<^verbatim>\<open>assistant\<close>; the reply of the response is the content of that second turn. When
  the completion client is called and succeeds with a text, the reply is that text.
\<close>

theorem send_public_message_appends_turns:
  assumes req: "message_request body = Inr (session_id, message)"
    and sid: "session_id \<noteq> []" and msg: "message \<noteq> []"
    and live: "map_of sessions session_id = Some s"
  shows "\<exists>reply.
      fst (send_public_message cfg body llm now sessions) = MessageSuccess reply
    \<and> map_of (snd (send_public_message cfg body llm now sessions)) session_id =
        Some (s\<lparr>history := history s @
                  [\<lparr>role = ''user'', content = JStr message\<rparr>,
                   \<lparr>role = ''assistant'', content = reply\<rparr>],
                last_activity := now\<rparr>)
    \<and> (\<forall>info text.
          caller_info s = JObj info \<and> LLM_API_URL cfg \<noteq> [] \<and> LLM_API_KEY cfg \<noteq> [] \<and>
          completion_text
            (llm (dict_get info ''name'' (JStr ''Guest''))
               (history s @ [\<lparr>role = ''user'', content = JStr message\<rparr>])) = Some text
          \<longrightarrow> reply = JStr text)"
proof -
  let ?s1 = "s\<lparr>history := history s @ [\<lparr>role = ''user'', content = JStr message\<rparr>]\<rparr>"
  let ?reply = "generate_ai_response cfg ?s1 llm"
  have run: "send_public_message cfg body llm now sessions =
     (MessageSuccess ?reply,
      AList.update session_id
        (s\<lparr>history := history s @
              [\<lparr>role = ''user'', content = JStr message\<rparr>,
               \<lparr>role = ''assistant'', content = ?reply\<rparr>],
            last_activity := now\<rparr>)
        sessions)"
    by (rule send_public_message_live [OF req sid msg live])
  have ok: "?reply = JStr t"
    if "caller_info s = JObj info" "LLM_API_URL cfg \<noteq> []" "LLM_API_KEY cfg \<noteq> []"
      "completion_text
         (llm (dict_get info ''name'' (JStr ''Guest''))
            (history s @ [\<lparr>role = ''user'', content = JStr message\<rparr>])) = Some t"
    for info t
  proof -
    from that(4) have "completion_content
         (llm (dict_get info ''name'' (JStr ''Guest'')) (history ?s1)) = Some (JStr t)"
      by (simp add: completion_text_def split: option.splits json.splits)
    with that(1-3) show ?thesis
      by (intro generate_ai_response_content [where info = info]) simp_all
  qed
  show ?thesis
    apply (rule exI [where x = ?reply])
    apply (simp only: run fst_conv snd_conv)
    apply (intro conjI)
      apply (rule refl)
     apply (simp add: update_conv')
    using ok apply blast
    done
qed

theorem send_public_message_appends_turns_witness:
  "fst (send_public_message default_config body_hours llm_open_9_to_5 90000000 store_alex) =
     MessageSuccess (JStr ''We are open 9 to 5.'')
   \<and> map_of (snd (send_public_message default_config body_hours llm_open_9_to_5 90000000 store_alex))
        ''S'' =
     Some \<lparr>user_id = 1, slug = ''front-desk'', caller_info = JObj [(''name'', JStr ''Alex'')],
           history = [\<lparr>role = ''user'', content = JStr ''What are your hours?''\<rparr>,
                      \<lparr>role = ''assistant'', content = JStr ''We are open 9 to 5.''\<rparr>],
           start_time = 0, last_activity = 90000000\<rparr>"
proof -
  have req: "message_request body_hours = Inr (''S'', ''What are your hours?'')"
    by (simp add: eval_defs scenario_defs)
  have live: "map_of store_alex ''S'' = Some session_alex"
    by (simp add: store_alex_def)
  from send_public_message_appends_turns [OF req _ _ live, of default_config llm_open_9_to_5 90000000]
  obtain reply where
    r1: "fst (send_public_message default_config body_hours llm_open_9_to_5 90000000 store_alex) =
           MessageSuccess reply"
    and r2: "map_of (snd (send_public_message default_config body_hours llm_open_9_to_5 90000000 store_alex)) ''S'' =
        Some (session_alex\<lparr>history := history session_alex @
                  [\<lparr>role = ''user'', content = JStr ''What are your hours?''\<rparr>,
                   \<lparr>role = ''assistant'', content = reply\<rparr>],
                last_activity := 90000000\<rparr>)"
    and r3: "\<forall>info text.
          caller_info session_alex = JObj info \<and> LLM_API_URL default_config \<noteq> [] \<and>
          LLM_API_KEY default_config \<noteq> [] \<and>
          completion_text
            (llm_open_9_to_5 (dict_get info ''name'' (JStr ''Guest''))
               (history session_alex @ [\<lparr>role = ''user'', content = JStr ''What are your hours?''\<rparr>])) = Some text
          \<longrightarrow> reply = JStr text"
    by auto
  have "reply = JStr ''We are open 9 to 5.''"
    using r3 [rule_format, of "[(''name'', JStr ''Alex'')]" "''We are open 9 to 5.''"]
    by (simp add: scenario_defs completion_text_def)
  with r1 r2 show ?thesis
    by (simp add: session_alex_def)
qed

section \<open>The fallback replies\<close>











section \<open>Ids that are not registered\<close>

lemma delete_absent: "map_of sessions k = None \<Longrightarrow> AList.delete k sessions = sessions"
  by (simp add: delete_id map_of_eq_None_iff)

lemma map_of_fold_delete:
  "map_of (fold AList.delete ks sessions) k = (if k \<in> set ks then None else map_of sessions k)"
  by (induction ks arbitrary: sessions) (simp_all add: delete_conv')

lemma distinct_fold_delete:
  "distinct (map fst sessions) \<Longrightarrow> distinct (map fst (fold AList.delete ks sessions))"
  by (induction ks arbitrary: sessions) (simp_all add: distinct_delete)

lemma expired_ids_iff:
  assumes "wf_store sessions"
  shows "k \<in> set (expired_ids now sessions) \<longleftrightarrow>
         (\<exists>data. map_of sessions k = Some data \<and> idle_expired now data)"
  using assms
  by (force simp add: expired_ids_def wf_store_def)

lemma send_public_message_not_found:
  assumes "message_request body = Inr (session_id, message)"
    and "session_id \<noteq> []" and "message \<noteq> []"
    and "map_of sessions session_id = None"
  shows "send_public_message cfg body llm now sessions =
           (Failure 404 ''Session not found'', sessions)"
  using assms
  by (simp add: send_public_message_def send_public_message_try_def)

lemma end_public_session_not_found:
  assumes "end_request body = Inr session_id"
    and "session_id \<noteq> []"
    and "map_of sessions session_id = None"
  shows "end_public_session body db now sessions calls = (EndNotFound, sessions, calls)"
  using assms
  by (simp add: end_public_session_def end_public_session_try_def dict_pop_def delete_absent)

lemma end_public_session_removes:
  assumes "end_request body = Inr session_id"
    and "session_id \<noteq> []"
  shows "map_of (fst (snd (end_public_session body db now sessions calls))) session_id = None"
  using assms
  by (cases db)
     (simp_all add: end_public_session_def end_public_session_try_def dict_pop_def delete_conv'
        Let_def split: option.splits)

lemma cleanup_pass_lookup:
  assumes "wf_store sessions"
  shows "map_of (cleanup_pass now sessions) k =
     (case map_of sessions k of
        None \<Rightarrow> None
      | Some data \<Rightarrow> if idle_expired now data then None else Some data)"
  using expired_ids_iff [OF assms, of k now]
  by (auto simp add: cleanup_pass_def map_of_fold_delete split: option.splits)

lemma start_public_session_keeps_absent:
  assumes "map_of sessions k = None" and "uuid \<noteq> k"
  shows "map_of (snd (start_public_session body db uuid t_start t_activity t_response sessions)) k = None"
  using assms
  by (auto simp add: start_public_session_def start_public_session_try_def update_conv' Let_def
      split: sum.splits prod.splits user_query.splits)

lemma send_public_message_keeps_absent:
  assumes "map_of sessions k = None"
  shows "map_of (snd (send_public_message cfg body llm now sessions)) k = None"
  using assms
  by (auto simp add: send_public_message_def send_public_message_try_def update_conv' Let_def
      split: sum.splits prod.splits option.splits)

lemma end_public_session_keeps_absent:
  assumes "map_of sessions k = None"
  shows "map_of (fst (snd (end_public_session body db now sessions calls))) k = None"
  using assms
  by (auto simp add: end_public_session_def end_public_session_try_def dict_pop_def delete_conv'
      Let_def split: sum.splits prod.splits option.splits insert_outcome.splits)

lemma cleanup_pass_keeps_absent:
  assumes "map_of sessions k = None"
  shows "map_of (cleanup_pass now sessions) k = None"
  using assms by (simp add: cleanup_pass_def map_of_fold_delete)

lemma step_keeps_absent:
  assumes "map_of (fst st) k = None" and "drawn_id op \<noteq> Some k"
  shows "map_of (fst (step op st)) k = None"
proof (cases st)
  case (Pair sessions calls)
  with assms show ?thesis
    by (cases op)
       (simp_all add: start_public_session_keeps_absent send_public_message_keeps_absent
          end_public_session_keeps_absent cleanup_pass_keeps_absent)
qed

lemma run_keeps_absent:
  assumes "map_of (fst st) k = None" and "Some k \<notin> drawn_id ` set ops"
  shows "map_of (fst (run ops st)) k = None"
  using assms
proof (induction ops arbitrary: st)
  case Nil
  then show ?case by (simp add: run_def)
next
  case (Cons op ops)
  from Cons.prems have "map_of (fst (step op st)) k = None"
    by (intro step_keeps_absent) auto
  moreover from Cons.prems have "Some k \<notin> drawn_id ` set ops" by auto
  ultimately have "map_of (fst (run ops (step op st))) k = None"
    by (rule Cons.IH)
  then show ?case by (simp add: run_def)
qed

text \<open>
  Claim C3, as amended. Take an id that is not registered: it was never stored, or the
  end request has popped it, or a cleanup pass has deleted it as expired. Whatever
  requests and cleanup passes follow, as long as no start request draws the same id
  again, the id stays unregistered: a message for it is answered 404
  \<^verbatim>\<open>Session not found\<close> and an end request for it is answered with the message
  \<^verbatim>\<open>Session not found\<close>, both leaving the store as it is.
\<close>

theorem unknown_or_removed_session_not_found:
  assumes origin:
    "map_of sessions sid = None
     \<or> (end_request body0 = Inr sid
        \<and> sessions = fst (snd (end_public_session body0 db0 now0 before calls0)))
     \<or> (wf_store before \<and> map_of before sid = Some data \<and> idle_expired now0 data
        \<and> sessions = cleanup_pass now0 before)"
    and not_drawn_again: "Some sid \<notin> drawn_id ` set ops"
    and message_req: "message_request body = Inr (sid, message)" "message \<noteq> []"
    and end_req: "end_request body' = Inr sid"
    and nonblank: "sid \<noteq> []"
  shows "map_of (fst (run ops (sessions, calls))) sid = None
    \<and> send_public_message cfg body llm now (fst (run ops (sessions, calls))) =
        (Failure 404 ''Session not found'', fst (run ops (sessions, calls)))
    \<and> end_public_session body' db now' (fst (run ops (sessions, calls))) calls' =
        (EndNotFound, fst (run ops (sessions, calls)), calls')"
proof -
  have gone: "map_of sessions sid = None"
    using origin
  proof (elim disjE conjE)
    assume "end_request body0 = Inr sid"
      and "sessions = fst (snd (end_public_session body0 db0 now0 before calls0))"
    then show ?thesis
      using end_public_session_removes [of body0 sid db0 now0 before calls0] nonblank by simp
  next
    assume "wf_store before" "map_of before sid = Some data" "idle_expired now0 data"
      and "sessions = cleanup_pass now0 before"
    then show ?thesis
      by (simp add: cleanup_pass_lookup)
  qed
  have later: "map_of (fst (run ops (sessions, calls))) sid = None"
    using run_keeps_absent [of "(sessions, calls)" sid ops] gone not_drawn_again by simp
  show ?thesis
    using later send_public_message_not_found [OF message_req(1) nonblank message_req(2) later]
      end_public_session_not_found [OF end_req nonblank later]
    by simp
qed

theorem unknown_or_removed_session_not_found_witness:
  "map_of (fst (run later_ops
       (fst (snd (end_public_session body_session_S Committed 120000000 store_alex [])), [])))
     ''S'' = None
   \<and> send_public_message default_config body_hours llm_open_9_to_5 200000000
       (fst (run later_ops
          (fst (snd (end_public_session body_session_S Committed 120000000 store_alex [])), []))) =
     (Failure 404 ''Session not found'',
      fst (run later_ops
          (fst (snd (end_public_session body_session_S Committed 120000000 store_alex [])), [])))
   \<and> end_public_session body_session_S NoConn 210000000
       (fst (run later_ops
          (fst (snd (end_public_session body_session_S Committed 120000000 store_alex [])), []))) [] =
     (EndNotFound,
      fst (run later_ops
          (fst (snd (end_public_session body_session_S Committed 120000000 store_alex [])), [])),
      [])"
proof -
  have ended: "end_request body_session_S = Inr ''S''"
    by (simp add: eval_defs scenario_defs)
  have origin: "map_of (fst (snd (end_public_session body_session_S Committed 120000000 store_alex []))) ''S'' = None
     \<or> (end_request body_session_S = Inr ''S''
        \<and> fst (snd (end_public_session body_session_S Committed 120000000 store_alex [])) =
          fst (snd (end_public_session body_session_S Committed 120000000 store_alex [])))
     \<or> (wf_store store_alex \<and> map_of store_alex ''S'' = Some session_alex
        \<and> idle_expired 120000000 session_alex
        \<and> fst (snd (end_public_session body_session_S Committed 120000000 store_alex [])) =
          cleanup_pass 120000000 store_alex)"
    using ended by simp
  have not_drawn: "Some ''S'' \<notin> drawn_id ` set later_ops"
    by (simp add: later_ops_def)
  have asked: "message_request body_hours = Inr (''S'', ''What are your hours?'')"
    by (simp add: eval_defs scenario_defs)
  show ?thesis
    by (rule unknown_or_removed_session_not_found
        [where cfg = default_config and llm = llm_open_9_to_5 and now = 200000000
           and db = NoConn and now' = 210000000 and calls = "[]" and calls' = "[]",
         OF origin not_drawn asked _ ended])
      simp_all
qed

text \<open>
  Claim C3 as stated lets no removed id resolve to a live session ever again. The start
  route stores the id it draws without looking it up: once the end request has removed
  \<open>''S''\<close>, a start that draws \<open>''S''\<close> registers it anew, and a message for it is handled.
\<close>

theorem redrawn_id_counterexample:
  "map_of (fst (snd (end_public_session body_session_S Committed 120000000 store_alex [])))
     ''S'' = None
   \<and> fst (send_public_message default_config body_hours llm_open_9_to_5 200000000
       (fst (run [Start body_start db_owner ''S'' 140000000 140000001 140000002]
          (fst (snd (end_public_session body_session_S Committed 120000000 store_alex [])),
           [])))) =
     MessageSuccess (JStr ''We are open 9 to 5.'')"
  by (simp add: eval_defs scenario_defs run_def)

section \<open>Validation of a message request\<close>

lemma message_request_of_fields:
  assumes "get_json_or_empty body = Inr (JObj data)"
    and "dict_get data ''session_id'' (JStr []) = JStr session_id_raw"
    and "dict_get data ''message'' (JStr []) = JStr message_raw"
  shows "message_request body = Inr (strip session_id_raw, strip message_raw)"
  using assms
  by (simp add: message_request_def py_get_def py_strip_def bind_exn_Inr)

lemma send_public_message_rejected_keeps_store:
  assumes "\<forall>reply. fst (send_public_message cfg body llm now sessions) \<noteq> MessageSuccess reply"
  shows "snd (send_public_message cfg body llm now sessions) = sessions"
  using assms
  by (auto simp add: send_public_message_def send_public_message_try_def Let_def
      split: sum.splits prod.splits option.splits if_splits)

text \<open>
  Claim C10, as amended. Take a message request whose body is a JSON object, or a JSON
  value that Python counts as false and the handler therefore reads as the empty object,
  and in which \<^verbatim>\<open>session_id\<close> and \<^verbatim>\<open>message\<close> are each absent or a string. When one of
  the two is absent or blank once trimmed, the request is rejected with status 400 and
  \<^verbatim>\<open>Session ID and message required\<close>; the store is returned as it was, so a blank
  message for a live session appends nothing.
\<close>

theorem send_public_message_validates:
  assumes "get_json_or_empty body = Inr (JObj data)"
    and "dict_get data ''session_id'' (JStr []) = JStr session_id_raw"
    and "dict_get data ''message'' (JStr []) = JStr message_raw"
    and "strip session_id_raw = [] \<or> strip message_raw = []"
  shows "send_public_message cfg body llm now sessions =
           (Failure 400 ''Session ID and message required'', sessions)"
  using message_request_of_fields [OF assms(1-3)] assms(4)
  by (auto simp add: send_public_message_def send_public_message_try_def)

theorem send_public_message_validates_witness:
  "send_public_message default_config
     (Some (JObj [(''session_id'', JStr ''S''), (''message'', JStr ''   '')]))
     llm_open_9_to_5 90000000 store_alex =
   (Failure 400 ''Session ID and message required'', store_alex)"
proof -
  have body: "get_json_or_empty (Some (JObj [(''session_id'', JStr ''S''), (''message'', JStr ''   '')])) =
      Inr (JObj [(''session_id'', JStr ''S''), (''message'', JStr ''   '')])"
    by (simp add: get_json_or_empty_def)
  have sid: "dict_get [(''session_id'', JStr ''S''), (''message'', JStr ''   '')] ''session_id'' (JStr []) =
      JStr ''S''"
    by (simp add: dict_get_def)
  have msg: "dict_get [(''session_id'', JStr ''S''), (''message'', JStr ''   '')] ''message'' (JStr []) =
      JStr ''   ''"
    by (simp add: dict_get_def)
  have blank: "strip ''S'' = [] \<or> strip ''   '' = []"
    by (simp add: strip_def isspace_def whitespace_def)
  show ?thesis
    by (rule send_public_message_validates [OF body sid msg blank])
qed

text \<open>
  Claim C10 as stated covers every request without a session id. With a message that
  is a number, trimming it raises; with a body that is a list, or that is no JSON at all,
  reading the fields raises. Each time the answer is status 500, not the validation
  error.
\<close>

theorem non_text_field_counterexample:
  "send_public_message default_config (Some (JObj [(''message'', JNum 5)]))
     llm_open_9_to_5 90000000 store_alex =
   (Failure 500 ''Failed to send message'', store_alex)
   \<and> send_public_message default_config (Some (JArr [JNum 1]))
     llm_open_9_to_5 90000000 store_alex =
   (Failure 500 ''Failed to send message'', store_alex)
   \<and> send_public_message default_config None llm_open_9_to_5 90000000 store_alex =
   (Failure 500 ''Failed to send message'', store_alex)"
  by (simp add: eval_defs)

section \<open>Ending a session\<close>

lemma end_public_session_live:
  assumes "end_request body = Inr session_id"
    and "session_id \<noteq> []"
    and "map_of sessions session_id = Some s"
  shows "end_public_session body db now sessions calls =
     (case db of
        NoConn \<Rightarrow>
          (EndSuccess (int_total_seconds (now - start_time s)),
           AList.delete session_id sessions, calls)
      | Committed \<Rightarrow>
          (EndSuccess (int_total_seconds (now - start_time s)),
           AList.delete session_id sessions,
           calls @
             [\<lparr>rec_user_id = user_id s, rec_session_id = session_id,
               rec_caller_info = caller_info s, rec_conversation = history s,
               rec_summary = JObj [(''message'', JStr ''Session ended'')],
               rec_duration = int_total_seconds (now - start_time s),
               rec_created_at = start_time s\<rparr>])
      | InsertRaises \<Rightarrow>
          (Failure 500 ''Failed to end session'', AList.delete session_id sessions, calls))"
  using assms
  by (cases db)
     (simp_all add: end_public_session_def end_public_session_try_def dict_pop_def Let_def)

text \<open>
  With no connection from the pool the handler skips the insert and answers with success
  and the duration.
\<close>

lemma end_public_session_without_database:
  assumes "end_request body = Inr session_id"
    and "session_id \<noteq> []"
    and "map_of sessions session_id = Some s"
  shows "end_public_session body NoConn now sessions calls =
     (EndSuccess (int_total_seconds (now - start_time s)),
      AList.delete session_id sessions, calls)"
  using end_public_session_live [OF assms, of NoConn now calls] by simp

text \<open>
  Claim C4. A failure of the persistence layer is not to fail the end response. When the
  insert raises, the exception leaves the \<^verbatim>\<open>try\<close>/\<^verbatim>\<open>finally\<close> around it, which has no
  \<^verbatim>\<open>except\<close>, and the outer handler answers status 500 \<^verbatim>\<open>Failed to end session\<close>, the
  session being popped already. On the same request the path without a connection
  answers with success and the duration of 120 seconds.
\<close>

theorem end_public_session_insert_raises:
  "end_public_session body_session_S InsertRaises 120000000 store_alex [] =
     (Failure 500 ''Failed to end session'', [], [])
   \<and> end_public_session body_session_S NoConn 120000000 store_alex [] =
     (EndSuccess 120, [], [])"
  by (simp add: eval_defs scenario_defs)

text \<open>
  Claim C6, as amended. An end request for an existing session pops the session,
  whatever the database does. When a connection is obtained and the insert commits, the
  table gains one row with the session's \<^verbatim>\<open>user_id\<close>, the session id, the caller info, the
  full history and the duration, and the response carries that same duration. The
  duration is \<^verbatim>\<open>int(total_seconds())\<close> of \<open>now - start_time\<close>: it is not negative when the
  clock has not gone back since the start, and it is the whole seconds of the difference
  when that is, besides, less than \<open>2 ^ 34\<close> seconds.
\<close>

theorem end_public_session_records:
  assumes "end_request body = Inr session_id"
    and "session_id \<noteq> []"
    and "map_of sessions session_id = Some s"
  shows "map_of (fst (snd (end_public_session body db now sessions calls))) session_id = None
    \<and> end_public_session body Committed now sessions calls =
        (EndSuccess (int_total_seconds (now - start_time s)),
         AList.delete session_id sessions,
         calls @
           [\<lparr>rec_user_id = user_id s, rec_session_id = session_id,
             rec_caller_info = caller_info s, rec_conversation = history s,
             rec_summary = JObj [(''message'', JStr ''Session ended'')],
             rec_duration = int_total_seconds (now - start_time s),
             rec_created_at = start_time s\<rparr>])
    \<and> (start_time s \<le> now \<longrightarrow> 0 \<le> int_total_seconds (now - start_time s))
    \<and> (start_time s \<le> now \<and> now - start_time s < 17179869184 * 1000000 \<longrightarrow>
          int_total_seconds (now - start_time s) = (now - start_time s) div 1000000)"
proof (intro conjI impI)
  show "map_of (fst (snd (end_public_session body db now sessions calls))) session_id = None"
    using assms(1,2) by (rule end_public_session_removes)
  show "end_public_session body Committed now sessions calls =
        (EndSuccess (int_total_seconds (now - start_time s)),
         AList.delete session_id sessions,
         calls @
           [\<lparr>rec_user_id = user_id s, rec_session_id = session_id,
             rec_caller_info = caller_info s, rec_conversation = history s,
             rec_summary = JObj [(''message'', JStr ''Session ended'')],
             rec_duration = int_total_seconds (now - start_time s),
             rec_created_at = start_time s\<rparr>])"
    using end_public_session_live [OF assms, of Committed now calls] by simp
next
  assume "start_time s \<le> now"
  then have "0 \<le> now - start_time s" by simp
  then show "0 \<le> int_total_seconds (now - start_time s)"
    by (rule int_total_seconds_nonneg)
next
  assume "start_time s \<le> now \<and> now - start_time s < 17179869184 * 1000000"
  then have "0 \<le> now - start_time s" "now - start_time s < 17179869184 * 1000000"
    by simp_all
  then show "int_total_seconds (now - start_time s) = (now - start_time s) div 1000000"
    by (rule int_total_seconds_exact)
qed

theorem end_public_session_records_witness:
  "end_public_session body_session_S Committed 120500000 store_after_hours [] =
     (EndSuccess 120, [],
      [\<lparr>rec_user_id = 1, rec_session_id = ''S'',
        rec_caller_info = JObj [(''name'', JStr ''Alex'')],
        rec_conversation =
          [\<lparr>role = ''user'', content = JStr ''What are your hours?''\<rparr>,
           \<lparr>role = ''assistant'', content = JStr ''We are open 9 to 5.''\<rparr>],
        rec_summary = JObj [(''message'', JStr ''Session ended'')],
        rec_duration = 120, rec_created_at = 0\<rparr>])
   \<and> map_of (fst (snd (end_public_session body_session_S Committed 120500000 store_after_hours [])))
       ''S'' = None
   \<and> (0::int) \<le> 120500000 \<and> (120500000::int) - 0 < 17179869184 * 1000000
   \<and> (120500000 - 0) div 1000000 = (120::int)"
proof -
  have req: "end_request body_session_S = Inr ''S''"
    by (simp add: eval_defs scenario_defs)
  have live: "map_of store_after_hours ''S'' = Some session_after_hours"
    by (simp add: store_after_hours_def)
  show ?thesis
    using end_public_session_records [OF req _ live, of Committed 120500000 "[]"]
    by (simp add: store_after_hours_def session_after_hours_def)
qed

text \<open>
  Claim C6 as stated has a record produced at every end of an existing session, with a
  duration that is \<open>now - start_time\<close> and not negative. With no connection from the pool
  the handler skips the insert and the table stays empty. With a clock reading one second
  before the start, the recorded and returned duration is \<open>- 1\<close>. And at the last
  microsecond before \<open>2 ^ 34 + 1\<close> seconds, the duration is one second more than the whole
  seconds of the difference.
\<close>

theorem no_connection_no_record_counterexample:
  "end_public_session body_session_S NoConn 120500000 store_after_hours [] =
     (EndSuccess 120, [], [])
   \<and> end_public_session body_session_S Committed 129000000 store_ahead [] =
     (EndSuccess (- 1), [],
      [\<lparr>rec_user_id = 1, rec_session_id = ''S'',
        rec_caller_info = JObj [(''name'', JStr ''Alex'')], rec_conversation = [],
        rec_summary = JObj [(''message'', JStr ''Session ended'')],
        rec_duration = - 1, rec_created_at = 130000000\<rparr>])
   \<and> end_public_session body_session_S Committed 17179869184999999 store_alex [] =
     (EndSuccess 17179869185, [],
      [\<lparr>rec_user_id = 1, rec_session_id = ''S'',
        rec_caller_info = JObj [(''name'', JStr ''Alex'')], rec_conversation = [],
        rec_summary = JObj [(''message'', JStr ''Session ended'')],
        rec_duration = 17179869185, rec_created_at = 0\<rparr>])
   \<and> (17179869184999999::int) div 1000000 = 17179869184"
  by (simp add: eval_defs scenario_defs)

section \<open>The cleanup pass\<close>

lemma fold_delete_filter:
  "fold AList.delete ks sessions = filter (\<lambda>(k, v). k \<notin> set ks) sessions"
proof (induction ks arbitrary: sessions)
  case Nil
  then show ?case by simp
next
  case (Cons k ks)
  have "fold AList.delete (k # ks) sessions = fold AList.delete ks (AList.delete k sessions)"
    by simp
  also have "\<dots> = filter (\<lambda>(k', v). k' \<notin> set ks) (AList.delete k sessions)"
    by (rule Cons.IH)
  also have "\<dots> = filter (\<lambda>(k', v). k' \<notin> set (k # ks)) sessions"
    by (induction sessions) (auto simp add: AList.delete_eq)
  finally show ?case .
qed

lemma expired_ids_after_pass: "expired_ids now (cleanup_pass now sessions) = []"
proof -
  have "\<not> idle_expired now v"
    if "(k, v) \<in> set sessions" "k \<notin> set (expired_ids now sessions)" for k v
    using that by (force simp add: expired_ids_def)
  then show ?thesis
    by (auto simp add: cleanup_pass_def fold_delete_filter expired_ids_def filter_empty_conv)
qed

lemma cleanup_pass_twice: "cleanup_pass now (cleanup_pass now sessions) = cleanup_pass now sessions"
proof -
  have "cleanup_pass now (cleanup_pass now sessions) =
        fold AList.delete (expired_ids now (cleanup_pass now sessions)) (cleanup_pass now sessions)"
    by (simp add: cleanup_pass_def)
  then show ?thesis
    by (simp add: expired_ids_after_pass)
qed

lemma wf_store_cleanup_pass: "wf_store sessions \<Longrightarrow> wf_store (cleanup_pass now sessions)"
  by (simp add: wf_store_def cleanup_pass_def distinct_fold_delete)

text \<open>
  Claim C5. On every store and at every time, one cleanup pass deletes exactly the
  sessions whose last activity lies more than 1800 seconds back, and leaves every other
  id with its session unchanged. A second pass at the same time finds no expired id and
  changes nothing.
\<close>

theorem cleanup_pass_removes_exactly_expired:
  assumes "wf_store sessions"
  shows "map_of (cleanup_pass now sessions) k =
       (case map_of sessions k of
          None \<Rightarrow> None
        | Some data \<Rightarrow>
            if now - last_activity data > 1800 * 1000000 then None else Some data)
    \<and> wf_store (cleanup_pass now sessions)
    \<and> expired_ids now (cleanup_pass now sessions) = []
    \<and> cleanup_sessions [now, now] sessions = cleanup_sessions [now] sessions"
proof (intro conjI)
  show "map_of (cleanup_pass now sessions) k =
       (case map_of sessions k of
          None \<Rightarrow> None
        | Some data \<Rightarrow>
            if now - last_activity data > 1800 * 1000000 then None else Some data)"
    using cleanup_pass_lookup [OF assms, of now k]
    by (simp add: idle_expired_def split: option.splits)
  show "wf_store (cleanup_pass now sessions)"
    using assms by (rule wf_store_cleanup_pass)
  show "expired_ids now (cleanup_pass now sessions) = []"
    by (rule expired_ids_after_pass)
  show "cleanup_sessions [now, now] sessions = cleanup_sessions [now] sessions"
    by (simp add: cleanup_pass_twice)
qed

theorem cleanup_pass_removes_exactly_expired_witness:
  "map_of (cleanup_pass 1800000001 store_two) ''S'' = None
   \<and> map_of (cleanup_pass 1800000001 store_two) ''T'' = Some session_blair
   \<and> cleanup_sessions [1800000001, 1800000001] store_two = cleanup_sessions [1800000001] store_two"
proof -
  have wf: "wf_store store_two"
    by (simp add: wf_store_def store_two_def)
  show ?thesis
    using cleanup_pass_removes_exactly_expired [OF wf, of 1800000001 "''S''"]
      cleanup_pass_removes_exactly_expired [OF wf, of 1800000001 "''T''"]
    by (simp add: store_two_def session_alex_def session_blair_def)
qed

section \<open>Starting a session\<close>

lemma update_absent:
  "map_of sessions k = None \<Longrightarrow> AList.update k v sessions = sessions @ [(k, v)]"
  by (induction sessions) (auto split: if_splits)

lemma start_public_session_success:
  assumes "fst (start_public_session body db uuid t_start t_activity t_response sessions) =
             StartSuccess sid greeting started_at"
  shows "\<exists>slug_v info user.
           start_request body = Inr (slug_v, info) \<and> slug_v \<noteq> [] \<and> db slug_v = Row user
         \<and> sid = uuid \<and> greeting = greeting_for (row_name user) \<and> started_at = t_response
         \<and> snd (start_public_session body db uuid t_start t_activity t_response sessions) =
             AList.update uuid
               \<lparr>user_id = row_id user, slug = slug_v, caller_info = info, history = [],
                start_time = t_start, last_activity = t_activity\<rparr>
               sessions"
  using assms
  by (auto simp add: start_public_session_def start_public_session_try_def Let_def
      split: sum.splits prod.splits user_query.splits if_splits)

text \<open>
  Claim C7, as amended. After a successful start the returned id is the drawn one, it is
  registered for a session with an empty history, whose \<^verbatim>\<open>start_time\<close> is the first reading
  of the clock and whose \<^verbatim>\<open>last_activity\<close> is the second; every other id keeps its entry,
  and no id is registered twice. When the drawn id was not registered, it is fresh: no
  session had it, and the store has grown by the new entry and nothing else.
\<close>

theorem start_public_session_registers:
  assumes "fst (start_public_session body db uuid t_start t_activity t_response sessions) =
             StartSuccess sid greeting started_at"
  shows "sid = uuid
    \<and> (\<exists>s. map_of (snd (start_public_session body db uuid t_start t_activity t_response sessions))
             sid = Some s
          \<and> history s = [] \<and> start_time s = t_start \<and> last_activity s = t_activity)
    \<and> (\<forall>k. k \<noteq> sid \<longrightarrow>
          map_of (snd (start_public_session body db uuid t_start t_activity t_response sessions)) k =
          map_of sessions k)
    \<and> (wf_store sessions \<longrightarrow>
          wf_store (snd (start_public_session body db uuid t_start t_activity t_response sessions)))
    \<and> (map_of sessions uuid = None \<longrightarrow>
          sid \<notin> fst ` set sessions
        \<and> (\<exists>s. snd (start_public_session body db uuid t_start t_activity t_response sessions) =
                 sessions @ [(sid, s)]))"
  using start_public_session_success [OF assms]
  by (elim exE conjE)
     (simp add: update_conv' wf_store_def distinct_update update_absent map_of_eq_None_iff)

theorem start_public_session_registers_witness:
  "map_of (snd (start_public_session body_start db_owner ''T'' 140000000 140000000 140000002
        store_alex)) ''T'' =
     Some \<lparr>user_id = 1, slug = ''front-desk'', caller_info = JObj [(''name'', JStr ''Alex'')],
           history = [], start_time = 140000000, last_activity = 140000000\<rparr>
   \<and> map_of (snd (start_public_session body_start db_owner ''T'' 140000000 140000000 140000002
        store_alex)) ''S'' = Some session_alex
   \<and> wf_store (snd (start_public_session body_start db_owner ''T'' 140000000 140000000 140000002
        store_alex))
   \<and> map_of store_alex ''T'' = None
   \<and> ''T'' \<notin> fst ` set store_alex"
proof -
  have ok: "fst (start_public_session body_start db_owner ''T'' 140000000 140000000 140000002
        store_alex) = StartSuccess ''T'' (greeting_for ''Dana'') 140000002"
    by (simp add: eval_defs scenario_defs)
  have run: "snd (start_public_session body_start db_owner ''T'' 140000000 140000000 140000002
        store_alex) =
      [(''S'', session_alex),
       (''T'', \<lparr>user_id = 1, slug = ''front-desk'', caller_info = JObj [(''name'', JStr ''Alex'')],
           history = [], start_time = 140000000, last_activity = 140000000\<rparr>)]"
    by (simp add: eval_defs scenario_defs)
  have absent: "map_of store_alex ''T'' = None"
    by (simp add: store_alex_def)
  from start_public_session_registers [OF ok]
  have "wf_store store_alex \<longrightarrow>
          wf_store (snd (start_public_session body_start db_owner ''T'' 140000000 140000000 140000002
        store_alex))"
    and "map_of store_alex ''T'' = None \<longrightarrow> ''T'' \<notin> fst ` set store_alex"
    by blast+
  moreover have "wf_store store_alex"
    by (simp add: wf_store_def store_alex_def)
  ultimately show ?thesis
    using absent by (simp add: run)
qed

text \<open>
  Claim C7 as stated has the two timestamps equal and the returned id fresh. The handler
  reads the clock once for each timestamp; with readings one microsecond apart the new
  session holds both. And it stores the drawn id unchecked: a start that draws \<open>''S''\<close>
  while Alex's session is registered under it succeeds, returns \<open>''S''\<close>, and the new
  session takes the place of Alex's.
\<close>

theorem two_clock_readings_counterexample:
  "fst (start_public_session body_start db_owner ''T'' 140000000 140000001 140000002 []) =
     StartSuccess ''T'' ''Hello! You've reached Dana's AI receptionist. How can I help you today?''
       140000002
   \<and> map_of (snd (start_public_session body_start db_owner ''T'' 140000000 140000001 140000002 []))
       ''T'' =
     Some \<lparr>user_id = 1, slug = ''front-desk'', caller_info = JObj [(''name'', JStr ''Alex'')],
           history = [], start_time = 140000000, last_activity = 140000001\<rparr>
   \<and> map_of store_after_hours ''S'' = Some session_after_hours
   \<and> start_public_session body_start db_owner ''S'' 140000000 140000000 140000002
       store_after_hours =
     (StartSuccess ''S''
        ''Hello! You've reached Dana's AI receptionist. How can I help you today?'' 140000002,
      [(''S'',
        \<lparr>user_id = 1, slug = ''front-desk'', caller_info = JObj [(''name'', JStr ''Alex'')],
         history = [], start_time = 140000000, last_activity = 140000000\<rparr>)])"
  by (simp add: eval_defs scenario_defs)

text \<open>
  Claim C8. The greeting of a successful start is \<open>greeting_for\<close> applied to the name of
  the owner whom the link's slug selects, and nothing else; the session registered under
  the returned id has an empty history, so the greeting is no turn of it.
\<close>

theorem start_public_session_greeting:
  assumes "fst (start_public_session body db uuid t_start t_activity t_response sessions) =
             StartSuccess sid greeting started_at"
  shows "\<exists>slug_v info user.
        start_request body = Inr (slug_v, info) \<and> db slug_v = Row user
      \<and> greeting = greeting_for (row_name user)
      \<and> map_option history
          (map_of (snd (start_public_session body db uuid t_start t_activity t_response sessions))
             sid) = Some []"
  using start_public_session_success [OF assms]
  by (elim exE conjE) (simp add: update_conv')

theorem start_public_session_greeting_witness:
  "fst (start_public_session body_start db_owner ''T'' 140000000 140000001 140000002 store_alex) =
     StartSuccess ''T'' ''Hello! You've reached Dana's AI receptionist. How can I help you today?''
       140000002
   \<and> map_option history
       (map_of (snd (start_public_session body_start db_owner ''T'' 140000000 140000001 140000002
          store_alex)) ''T'') = Some []"
proof -
  have ok: "fst (start_public_session body_start db_owner ''T'' 140000000 140000001 140000002
        store_alex) = StartSuccess ''T'' (greeting_for ''Dana'') 140000002"
    by (simp add: eval_defs scenario_defs)
  from start_public_session_greeting [OF ok] obtain slug_v info user where
    "db_owner slug_v = Row user" "greeting_for ''Dana'' = greeting_for (row_name user)"
    and empty: "map_option history
       (map_of (snd (start_public_session body_start db_owner ''T'' 140000000 140000001 140000002
          store_alex)) ''T'') = Some []"
    by blast
  from ok empty show ?thesis
    by (simp add: greeting_for_def)
qed

end
